theory Spec2Isabelle
  imports Complex_Main "HOL-Library.AList"
begin

section \<open>Data model\<close>

text \<open>
  A pandas Timestamp is a point on a linear time axis; it is modelled as a day number.
  A float64 cell of a DataFrame is a real number or NaN: \<open>None\<close> is NaN. Floating-point
  rounding and the infinities are not modelled: arithmetic on cells is exact.
\<close>

type_synonym date = int
type_synonym cell = "real option"

text \<open>
  One row of the schedule DataFrame built by \<open>get_last_fridays_for_years\<close>. The columns
  read by the functions modelled here are the two Fridays (entry and exit of the holding
  window) and the Thursday on which the universe snapshot is taken.
\<close>

record schedule_row =
  Third_to_Last_Friday :: date
  Second_to_Last_Friday :: date
  Third_to_Last_Thursday :: date

text \<open>
  One row of the table returned by \<open>optimize_portfolio\<close>: the ticker is the index, the
  other fields are the five returned columns. Rows with a missing value were dropped
  before, so the columns hold values.
\<close>

record portfolio_row =
  pticker :: string
  Optimized_Weight :: real
  pCUST_TRR_RETURN_HOLDING_PER :: real
  pBETA_RAW_OVERRIDABLE :: real
  pGICS_SECTOR_NAME :: string
  pTURNOVER :: real

type_synonym portfolio = "portfolio_row list"

text \<open>
  The daily-return DataFrame: the column labels (tickers) and, for every date of the index,
  the row of cells aligned with the columns. The index is a DatetimeIndex as the price
  provider delivers it, strictly increasing dates, and the column labels are distinct.
  Results about the backtest carry both as the hypotheses
  \<open>sorted_wrt (<) (index_of daily_returns)\<close> and \<open>distinct (columns daily_returns)\<close>.
\<close>

record frame =
  columns :: "string list"
  rows :: "(date \<times> cell list) list"

definition index_of :: "frame \<Rightarrow> date list" where
  "index_of df = map fst (rows df)"

text \<open>The DataFrame returned by \<open>backtest_strategy\<close>: the index and its two columns.\<close>

record strategy_frame =
  sindex :: "date list"
  Portfolio_Returns :: "real list"
  Cumulative_Returns :: "real list"

section \<open>backtest.py\<close>

text \<open>
  \<open>optimized_portfolios[third_to_last]['Optimized Weight']\<close>: the weight column as a
  Series indexed by ticker.
\<close>

definition weight_series :: "portfolio \<Rightarrow> (string \<times> real) list" where
  "weight_series pf = map (\<lambda>r. (pticker r, Optimized_Weight r)) pf"

text \<open>
  \<open>daily_returns.loc[a:b]\<close>: label slicing on an increasing index keeps the rows whose
  date lies in the inclusive range, whether or not \<open>a\<close> and \<open>b\<close> are dates of the index.
\<close>

definition loc_slice :: "date \<Rightarrow> date \<Rightarrow> (date \<times> 'a) list \<Rightarrow> (date \<times> 'a) list" where
  "loc_slice a b rs = filter (\<lambda>r. a \<le> fst r \<and> fst r \<le> b) rs"

text \<open>
  One row of \<open>(holding_period_returns * portfolio_weights).sum(axis=1)\<close>. The product
  aligns the Series index with the column labels by an outer join. A column whose ticker
  has weights is multiplied by every weight of that ticker, one product per weight (the
  Series index may repeat a ticker); a column without a weight, a ticker without a column
  and a NaN return give a NaN product; \<open>sum\<close> skips NaN (an all-NaN row sums to 0).
\<close>

definition row_products :: "(string \<times> real) list \<Rightarrow> string \<times> cell \<Rightarrow> cell list" where
  "row_products w cr =
     (case filter (\<lambda>tw. fst tw = fst cr) w of
        [] \<Rightarrow> [None]
      | tw # tws \<Rightarrow>
          map (\<lambda>tw. case snd cr of None \<Rightarrow> None | Some x \<Rightarrow> Some (x * snd tw)) (tw # tws))"

definition nansum :: "cell list \<Rightarrow> real" where
  "nansum cs = sum_list (map (\<lambda>c. case c of None \<Rightarrow> 0 | Some x \<Rightarrow> x) cs)"

definition weighted_row_sum :: "string list \<Rightarrow> (string \<times> real) list \<Rightarrow> cell list \<Rightarrow> real" where
  "weighted_row_sum cols w r = nansum (concat (map (row_products w) (zip cols r)))"

text \<open>
  \<open>strategy_returns.loc[a:b, 'Portfolio Returns'] = portfolio_returns\<close>: every position
  of the column whose date lies in the range takes the value the assigned Series has at
  that date (NaN where the Series has no such label); the other positions are kept.
\<close>

definition loc_assign ::
  "date \<Rightarrow> date \<Rightarrow> (date \<times> real) list \<Rightarrow> date list \<Rightarrow> cell list \<Rightarrow> cell list" where
  "loc_assign a b series idx col =
     map (\<lambda>dv. if a \<le> fst dv \<and> fst dv \<le> b then map_of series (fst dv) else snd dv) (zip idx col)"

text \<open>The body of the loop over \<open>schedule.iterrows()\<close>.\<close>

definition holding_step ::
  "(date \<times> portfolio) list \<Rightarrow> frame \<Rightarrow> cell list \<Rightarrow> schedule_row \<Rightarrow> cell list" where
  "holding_step optimized_portfolios daily_returns col row =
     (let third_to_last = Third_to_Last_Friday row;
          second_to_last = Second_to_Last_Friday row
      in case map_of optimized_portfolios third_to_last of
           None \<Rightarrow> col
         | Some pf \<Rightarrow>
             (let portfolio_weights = weight_series pf;
                  holding_period_returns = loc_slice third_to_last second_to_last (rows daily_returns);
                  portfolio_returns =
                    map (\<lambda>r. (fst r, weighted_row_sum (columns daily_returns) portfolio_weights (snd r)))
                      holding_period_returns
              in loc_assign third_to_last second_to_last portfolio_returns
                   (index_of daily_returns) col))"

definition fillna :: "real \<Rightarrow> cell list \<Rightarrow> real list" where
  "fillna v col = map (\<lambda>c. case c of None \<Rightarrow> v | Some x \<Rightarrow> x) col"

text \<open>\<open>cumprod\<close>: the running product, left to right.\<close>

fun cumprod_from :: "real \<Rightarrow> real list \<Rightarrow> real list" where
  "cumprod_from acc [] = []"
| "cumprod_from acc (x # xs) = (acc * x) # cumprod_from (acc * x) xs"

definition cumprod :: "real list \<Rightarrow> real list" where
  "cumprod xs = cumprod_from 1 xs"

definition backtest_strategy ::
  "(date \<times> portfolio) list \<Rightarrow> schedule_row list \<Rightarrow> frame \<Rightarrow> strategy_frame" where
  "backtest_strategy optimized_portfolios schedule daily_returns =
     (let init = map (\<lambda>_. Some 0) (index_of daily_returns);
          col = foldl (holding_step optimized_portfolios daily_returns) init schedule;
          pr = fillna 0 col
      in \<lparr> sindex = index_of daily_returns,
           Portfolio_Returns = pr,
           Cumulative_Returns = cumprod (map (\<lambda>r. 1 + r) pr) \<rparr>)"



section \<open>optimize_portfolio.py\<close>

text \<open>
  One row of the universe DataFrame handed to \<open>optimize_portfolio\<close>: the ticker is the
  index; a missing value is \<open>None\<close>.
\<close>

record asset_row =
  ticker :: string
  CUST_TRR_RETURN_HOLDING_PER :: cell
  BETA_RAW_OVERRIDABLE :: cell
  GICS_SECTOR_NAME :: "string option"
  TURNOVER :: cell

text \<open>
  The exceptions of the program: the \<open>ValueError\<close>s the repository raises itself, with
  their messages; the \<open>IndexError\<close> of \<open>iloc\<close>; a \<open>ValueError\<close> raised inside
  \<open>problem.solve\<close> by cvxpy or scipy, whose message is the library's and names no solver
  status; and a \<open>SolverError\<close> of cvxpy.
\<close>

datatype error = ValueError string | IndexError | LibraryValueError | SolverError string

definition isna :: "'a option \<Rightarrow> bool" where
  "isna c = (case c of None \<Rightarrow> True | Some _ \<Rightarrow> False)"

definition dropna :: "asset_row list \<Rightarrow> asset_row list" where
  "dropna data =
     filter (\<lambda>r. \<not> (isna (CUST_TRR_RETURN_HOLDING_PER r) \<or> isna (BETA_RAW_OVERRIDABLE r) \<or>
                    isna (GICS_SECTOR_NAME r) \<or> isna (TURNOVER r))) data"

text \<open>\<open>Series.replace(0, np.nan)\<close> and \<open>np.log\<close> on one cell (the logarithm of a
  negative number is NaN; zero never reaches the logarithm, it was replaced before).\<close>

definition replace0 :: "cell \<Rightarrow> cell" where
  "replace0 c = (case c of None \<Rightarrow> None | Some x \<Rightarrow> if x = 0 then None else Some x)"

definition np_log :: "cell \<Rightarrow> cell" where
  "np_log c = (case c of None \<Rightarrow> None | Some x \<Rightarrow> if 0 < x then Some (ln x) else None)"

definition LOG_ADV :: "bool \<Rightarrow> asset_row \<Rightarrow> cell" where
  "LOG_ADV log_flag r =
     (if log_flag then replace0 (np_log (replace0 (TURNOVER r)))
      else replace0 (replace0 (TURNOVER r)))"

text \<open>
  Cell arithmetic: NaN propagates. A division by zero occurs in this program only as
  0 / 0 (dividing by a zero standard deviation, when every deviation from the mean is
  zero as well), which is NaN.
\<close>

definition cell_sub :: "cell \<Rightarrow> cell \<Rightarrow> cell" where
  "cell_sub a b = (case a of None \<Rightarrow> None | Some x \<Rightarrow> (case b of None \<Rightarrow> None | Some y \<Rightarrow> Some (x - y)))"

definition cell_div :: "cell \<Rightarrow> cell \<Rightarrow> cell" where
  "cell_div a b =
     (case a of None \<Rightarrow> None
      | Some x \<Rightarrow> (case b of None \<Rightarrow> None | Some y \<Rightarrow> if y = 0 then None else Some (x / y)))"

definition SIGNAL :: "bool \<Rightarrow> asset_row list \<Rightarrow> cell list" where
  "SIGNAL log_flag data = map (\<lambda>r. cell_div (CUST_TRR_RETURN_HOLDING_PER r) (LOG_ADV log_flag r)) data"

text \<open>
  \<open>Series.mean()\<close> and \<open>Series.std()\<close> with their defaults: NaN cells are skipped, and
  the standard deviation divides the sum of squared deviations by the count minus
  \<open>ddof = 1\<close>; it is NaN when at most one value is left.
\<close>

definition notna :: "cell list \<Rightarrow> real list" where
  "notna cs = concat (map (\<lambda>c. case c of None \<Rightarrow> [] | Some x \<Rightarrow> [x]) cs)"

definition series_mean :: "cell list \<Rightarrow> cell" where
  "series_mean cs =
     (let xs = notna cs in if xs = [] then None else Some (sum_list xs / real (length xs)))"

definition series_std :: "cell list \<Rightarrow> cell" where
  "series_std cs =
     (let xs = notna cs; count = length xs
      in if count \<le> 1 then None
         else (let avg = sum_list xs / real count
               in Some (sqrt (sum_list (map (\<lambda>x. (avg - x)\<^sup>2) xs) / real (count - 1)))))"

definition Z_SCORE :: "bool \<Rightarrow> asset_row list \<Rightarrow> cell list" where
  "Z_SCORE log_flag data =
     (let signal = SIGNAL log_flag data;
          mean_signal = series_mean signal;
          std_signal = series_std signal
      in map (\<lambda>s. cell_div (cell_sub s mean_signal) std_signal) signal)"

text \<open>
  \<open>pd.get_dummies\<close>: one 0/1 column per distinct sector. The order of the columns plays
  no role in what follows (every column yields the same pair of constraints).
\<close>

definition sectors_of :: "asset_row list \<Rightarrow> string list" where
  "sectors_of data = remdups (map (\<lambda>r. the (GICS_SECTOR_NAME r)) data)"

definition sector_dummy :: "asset_row list \<Rightarrow> string \<Rightarrow> real list" where
  "sector_dummy data sector = map (\<lambda>r. if GICS_SECTOR_NAME r = Some sector then 1 else 0) data"

text \<open>
  The cvxpy problem. The decision variables are \<open>longs\<close> and \<open>shorts\<close> (non-negative) and
  \<open>z\<close> (boolean), each of shape \<open>n_assets\<close>; \<open>weights\<close> is the expression \<open>longs - shorts\<close>.
  The constraints are the six shapes the function builds.
\<close>

datatype constraint =
    SumLongsEq real
  | SumShortsEq real
  | LongsLeZ real
  | ShortsLeOneMinusZ real
  | WeightsGe "real list" real
  | WeightsLe "real list" real

record problem =
  n_assets :: nat
  objective :: "cell list"
  constraints :: "constraint list"

text \<open>
  What the solver leaves behind when it returns: \<open>problem.status\<close>, \<open>problem.value\<close>
  and the \<open>value\<close> arrays of the three variables. The solver itself (\<open>cp.SCIPY\<close>) is
  outside the repository and is a parameter of the model; it returns a result or raises.
\<close>

record solver_result =
  status :: string
  problem_value :: cell
  longs_value :: "real list"
  shorts_value :: "real list"
  z_value :: "real list"

type_synonym solver = "problem \<Rightarrow> error + solver_result"

definition OPTIMAL :: string where
  "OPTIMAL = ''optimal''"

definition weights_value :: "solver_result \<Rightarrow> real list" where
  "weights_value res = map2 (-) (longs_value res) (shorts_value res)"

definition dot :: "real list \<Rightarrow> real list \<Rightarrow> real" where
  "dot a w = sum_list (map2 (*) a w)"

text \<open>
  The meaning of a constraint at an assignment, and the contract of a solver that reports
  an optimal status: the assignment has the variables' shape, respects their attributes
  (\<open>nonneg\<close>, \<open>boolean\<close>) and satisfies every constraint.
\<close>

fun holds :: "solver_result \<Rightarrow> constraint \<Rightarrow> bool" where
  "holds res (SumLongsEq c) \<longleftrightarrow> sum_list (longs_value res) = c"
| "holds res (SumShortsEq c) \<longleftrightarrow> sum_list (shorts_value res) = c"
| "holds res (LongsLeZ c) \<longleftrightarrow> list_all2 (\<lambda>l z. l \<le> c * z) (longs_value res) (z_value res)"
| "holds res (ShortsLeOneMinusZ c) \<longleftrightarrow>
     list_all2 (\<lambda>s z. s \<le> c * (1 - z)) (shorts_value res) (z_value res)"
| "holds res (WeightsGe a c) \<longleftrightarrow> c \<le> dot a (weights_value res)"
| "holds res (WeightsLe a c) \<longleftrightarrow> dot a (weights_value res) \<le> c"

definition satisfies :: "problem \<Rightarrow> solver_result \<Rightarrow> bool" where
  "satisfies p res \<longleftrightarrow>
     length (longs_value res) = n_assets p \<and>
     length (shorts_value res) = n_assets p \<and>
     length (z_value res) = n_assets p \<and>
     list_all (\<lambda>x. 0 \<le> x) (longs_value res) \<and>
     list_all (\<lambda>x. 0 \<le> x) (shorts_value res) \<and>
     list_all (\<lambda>x. x = 0 \<or> x = 1) (z_value res) \<and>
     list_all (holds res) (constraints p)"

text \<open>
  The problem \<open>optimize_portfolio\<close> builds from its arguments: preprocessing, signal,
  z-score, objective and the list of constraints in the order the function appends them.
\<close>

definition portfolio_problem ::
  "asset_row list \<Rightarrow> real \<times> real \<Rightarrow> real \<times> real \<Rightarrow> real \<Rightarrow> bool \<Rightarrow> problem" where
  "portfolio_problem data0 beta_target_range sector_exposure_target max_weight log_flag =
     (let data = dropna data0;
          betas = map (\<lambda>r. the (BETA_RAW_OVERRIDABLE r)) data
      in \<lparr> n_assets = length data,
           objective = Z_SCORE log_flag data,
           constraints =
             [SumLongsEq 1, SumShortsEq 1] @
             [LongsLeZ max_weight, ShortsLeOneMinusZ max_weight] @
             [WeightsGe betas (fst beta_target_range), WeightsLe betas (snd beta_target_range)] @
             concat (map (\<lambda>sector.
                 [WeightsGe (sector_dummy data sector) (fst sector_exposure_target),
                  WeightsLe (sector_dummy data sector) (snd sector_exposure_target)])
               (sectors_of data)) \<rparr>)"

text \<open>
  \<open>problem.solve(solver=cp.SCIPY)\<close>. The call raises a \<open>ValueError\<close> of the library,
  before any status is reported, when the problem has no variables (an empty universe) or
  its objective holds a NaN (a zero or unusable turnover, a single asset, signals that are
  all equal); otherwise the outcome is the solver's.
\<close>

definition problem_solve :: "solver \<Rightarrow> problem \<Rightarrow> error + solver_result" where
  "problem_solve solve p =
     (if n_assets p = 0 \<or> list_ex isna (objective p) then Inl LibraryValueError else solve p)"

definition result_row :: "asset_row \<Rightarrow> real \<Rightarrow> portfolio_row" where
  "result_row r w =
     \<lparr> pticker = ticker r,
       Optimized_Weight = w,
       pCUST_TRR_RETURN_HOLDING_PER = the (CUST_TRR_RETURN_HOLDING_PER r),
       pBETA_RAW_OVERRIDABLE = the (BETA_RAW_OVERRIDABLE r),
       pGICS_SECTOR_NAME = the (GICS_SECTOR_NAME r),
       pTURNOVER = the (TURNOVER r) \<rparr>"

text \<open>
  \<open>optimize_portfolio\<close>: \<open>Inl\<close> is the exception that leaves the function, either the
  one raised inside \<open>problem.solve\<close> or the function's own \<open>ValueError\<close> with the status in
  its message; \<open>Inr\<close> is the returned pair of the weight table and \<open>problem.value\<close>. The
  value arrays of an optimal result have the shape of the variables, so attaching them
  to the rows is a zip.
\<close>

definition optimize_portfolio ::
  "solver \<Rightarrow> asset_row list \<Rightarrow> real \<times> real \<Rightarrow> real \<times> real \<Rightarrow> real \<Rightarrow> bool \<Rightarrow>
   error + (portfolio \<times> cell)" where
  "optimize_portfolio solve data0 beta_target_range sector_exposure_target max_weight log_flag =
     (let data = dropna data0
      in case problem_solve solve
                (portfolio_problem data0 beta_target_range sector_exposure_target max_weight log_flag) of
           Inl e \<Rightarrow> Inl e
         | Inr res \<Rightarrow>
             (let solution = problem_value res
              in if status res \<noteq> OPTIMAL
                 then Inl (ValueError (''Optimization failed. Status: '' @ status res))
                 else Inr (map2 result_row data (weights_value res), solution)))"

text \<open>
  The glossary's z-score, for comparison with \<open>Z_SCORE\<close>: value minus population mean,
  divided by the population standard deviation (divisor: the count).
\<close>

definition population_std :: "cell list \<Rightarrow> cell" where
  "population_std cs =
     (let xs = notna cs; count = length xs
      in if count = 0 then None
         else (let avg = sum_list xs / real count
               in Some (sqrt (sum_list (map (\<lambda>x. (avg - x)\<^sup>2) xs) / real count))))"

definition population_Z_SCORE :: "bool \<Rightarrow> asset_row list \<Rightarrow> cell list" where
  "population_Z_SCORE log_flag data =
     (let signal = SIGNAL log_flag data
      in map (\<lambda>s. cell_div (cell_sub s (series_mean signal)) (population_std signal)) signal)"

section \<open>STRRunner.py\<close>

text \<open>
  The runner after its loading phases (\<open>generate_schedule\<close>, \<open>fetch_relevant_data\<close>,
  \<open>fetch_prices\<close>): the attributes that \<open>create_portfolios\<close>, \<open>run_backtest\<close> and
  \<open>grid_search\<close> read and write. A dict is an association list with distinct keys in
  insertion order; \<open>d[k] = v\<close> is \<open>AList.update k v d\<close>. The pickle file written at the
  end of \<open>create_portfolios\<close> is not part of the state.
\<close>

record STRRunner =
  schedule :: "schedule_row list"
  constituent_data :: "(date \<times> asset_row list) list"
  returns :: frame
  optimized_portfolios :: "(date \<times> portfolio) list"
  solutions :: "(date \<times> cell) list"
  cumulative_strategy_returns :: "(date \<times> real) list"
  strategy_returns :: "(date \<times> real) list"

text \<open>
  \<open>self.schedule[self.schedule['Third-to-Last Thursday'] == key]['Third-to-Last Friday'].iloc[0]\<close>:
  the Friday of the first schedule row with that Thursday; \<open>iloc[0]\<close> raises an
  \<open>IndexError\<close> when no row matches.
\<close>

definition schedule_friday :: "schedule_row list \<Rightarrow> date \<Rightarrow> error + date" where
  "schedule_friday sched key =
     (case filter (\<lambda>r. Third_to_Last_Thursday r = key) sched of
        [] \<Rightarrow> Inl IndexError
      | r # _ \<Rightarrow> Inr (Third_to_Last_Friday r))"

text \<open>
  The loop of \<open>create_portfolios\<close> over the keys of \<open>constituent_data\<close>. The schedule
  lookup stands outside the \<open>try\<close>: its error ends the loop and leaves the state as
  mutated so far. An error of \<open>optimize_portfolio\<close> is caught and printed, and the loop
  goes on to the next key. The result pairs the error that escaped, if any, with the
  state.
\<close>

fun create_portfolios_loop ::
  "solver \<Rightarrow> real \<times> real \<Rightarrow> real \<times> real \<Rightarrow> real \<Rightarrow> bool \<Rightarrow>
   (date \<times> asset_row list) list \<Rightarrow> STRRunner \<Rightarrow> error option \<times> STRRunner" where
  "create_portfolios_loop solve beta_range sector_range max_weight log_flag [] self = (None, self)"
| "create_portfolios_loop solve beta_range sector_range max_weight log_flag (kd # rest) self =
     (case schedule_friday (schedule self) (fst kd) of
        Inl e \<Rightarrow> (Some e, self)
      | Inr date \<Rightarrow>
          (case optimize_portfolio solve (snd kd) beta_range sector_range max_weight log_flag of
             Inl e \<Rightarrow>
               create_portfolios_loop solve beta_range sector_range max_weight log_flag rest self
           | Inr ps \<Rightarrow>
               create_portfolios_loop solve beta_range sector_range max_weight log_flag rest
                 (self\<lparr> optimized_portfolios := AList.update date (fst ps) (optimized_portfolios self),
                        solutions := AList.update date (snd ps) (solutions self) \<rparr>)))"

definition create_portfolios ::
  "solver \<Rightarrow> real \<times> real \<Rightarrow> real \<times> real \<Rightarrow> real \<Rightarrow> bool \<Rightarrow> STRRunner \<Rightarrow>
   error option \<times> STRRunner" where
  "create_portfolios solve beta_range sector_range max_weight log_flag self =
     (if constituent_data self = []
      then (Some (ValueError ''No constituent data found. Call `retrieve_index_constituents` first.''), self)
      else create_portfolios_loop solve beta_range sector_range max_weight log_flag
             (constituent_data self) self)"

definition run_backtest :: "STRRunner \<Rightarrow> error option \<times> STRRunner" where
  "run_backtest self =
     (if optimized_portfolios self = []
      then (Some (ValueError ''No portfolios found. Call `create_portfolios` first.''), self)
      else (let strategy = backtest_strategy (optimized_portfolios self) (schedule self) (returns self)
            in (None,
                self\<lparr> cumulative_strategy_returns := zip (sindex strategy) (Cumulative_Returns strategy),
                       strategy_returns := zip (sindex strategy) (Portfolio_Returns strategy) \<rparr>)))"

text \<open>
  One row of the result list of \<open>grid_search\<close>. The columns \<open>sharpe\<close> and \<open>max_dd\<close> are
  further statistics of the same slice of \<open>strategy_returns\<close>; they change neither the
  state nor the control flow and are left out.
\<close>

record grid_result =
  gbeta_limit :: real
  gsector_limit :: real
  gmax_weight :: real
  glog :: bool
  final_cumulative_return :: real

text \<open>
  The body of the loop of \<open>grid_search\<close> for one parameter combination:
  \<open>create_portfolios\<close>, \<open>run_backtest\<close>, then the final cumulative return from \<open>start\<close> on
  (\<open>iloc[-1]\<close> raises an \<open>IndexError\<close> on an empty slice).
\<close>

definition grid_search_step ::
  "solver \<Rightarrow> date \<Rightarrow> real \<times> real \<times> real \<times> bool \<Rightarrow> STRRunner \<Rightarrow>
   (error + grid_result) \<times> STRRunner" where
  "grid_search_step solve start combo self =
     (case combo of (beta_limit, sector_limit, max_weight, log_flag) \<Rightarrow>
        (case create_portfolios solve (- beta_limit, beta_limit) (- sector_limit, sector_limit)
                max_weight log_flag self of
           (Some e, self1) \<Rightarrow> (Inl e, self1)
         | (None, self1) \<Rightarrow>
             (case run_backtest self1 of
                (Some e, self2) \<Rightarrow> (Inl e, self2)
              | (None, self2) \<Rightarrow>
                  (case cumprod (map (\<lambda>r. snd r + 1)
                          (filter (\<lambda>r. start \<le> fst r) (strategy_returns self2))) of
                     [] \<Rightarrow> (Inl IndexError, self2)
                   | c # cs \<Rightarrow>
                       (Inr \<lparr> gbeta_limit = beta_limit, gsector_limit = sector_limit,
                              gmax_weight = max_weight, glog = log_flag,
                              final_cumulative_return = last (c # cs) \<rparr>, self2)))))"

fun grid_search_loop ::
  "solver \<Rightarrow> date \<Rightarrow> (real \<times> real \<times> real \<times> bool) list \<Rightarrow> grid_result list \<Rightarrow> STRRunner \<Rightarrow>
   (error + grid_result list) \<times> STRRunner" where
  "grid_search_loop solve start [] results self = (Inr results, self)"
| "grid_search_loop solve start (combo # rest) results self =
     (case grid_search_step solve start combo self of
        (Inl e, self') \<Rightarrow> (Inl e, self')
      | (Inr r, self') \<Rightarrow> grid_search_loop solve start rest (results @ [r]) self')"

definition grid_search ::
  "solver \<Rightarrow> real list \<Rightarrow> real list \<Rightarrow> real list \<Rightarrow> bool list \<Rightarrow> date \<Rightarrow> STRRunner \<Rightarrow>
   (error + grid_result list) \<times> STRRunner" where
  "grid_search solve beta_limits sector_limits max_weights logs start self =
     (let param_combinations =
            concat (map (\<lambda>b. concat (map (\<lambda>s. concat (map (\<lambda>m. map (\<lambda>l. (b, s, m, l)) logs)
                      max_weights)) sector_limits)) beta_limits)
      in grid_search_loop solve start param_combinations [] self)"

text \<open>
  The optimisation of a universe fails under a parameter combination when
  \<open>optimize_portfolio\<close> raises.
\<close>

definition optimization_fails ::
  "solver \<Rightarrow> real \<times> real \<Rightarrow> real \<times> real \<Rightarrow> real \<Rightarrow> bool \<Rightarrow> asset_row list \<Rightarrow> bool" where
  "optimization_fails solve beta_range sector_range max_weight log_flag data \<longleftrightarrow>
     (case optimize_portfolio solve data beta_range sector_range max_weight log_flag of
        Inl _ \<Rightarrow> True | Inr _ \<Rightarrow> False)"


section \<open>Example inputs\<close>

text \<open>A small return table, two weight tables and a schedule with overlapping windows,
  used to evaluate the functions on concrete inputs.\<close>

definition ex_returns :: frame where
  "ex_returns = \<lparr> columns = [''A'', ''B''],
     rows = [(1, [Some (1/10), Some (1/5)]),
             (2, [Some (1/10), Some (-1/10)]),
             (3, [None, Some (1/5)]),
             (4, [Some (1/2), Some (1/10)]),
             (5, [Some (1/10), Some (3/10)])] \<rparr>"

definition ex_pf1 :: portfolio where
  "ex_pf1 = [\<lparr> pticker = ''A'', Optimized_Weight = 1, pCUST_TRR_RETURN_HOLDING_PER = 0,
               pBETA_RAW_OVERRIDABLE = 1, pGICS_SECTOR_NAME = ''S'', pTURNOVER = 2 \<rparr>,
             \<lparr> pticker = ''B'', Optimized_Weight = -1, pCUST_TRR_RETURN_HOLDING_PER = 1,
               pBETA_RAW_OVERRIDABLE = 1, pGICS_SECTOR_NAME = ''S'', pTURNOVER = 2 \<rparr>]"

definition ex_pf2 :: portfolio where
  "ex_pf2 = [\<lparr> pticker = ''A'', Optimized_Weight = -1, pCUST_TRR_RETURN_HOLDING_PER = 1,
               pBETA_RAW_OVERRIDABLE = 1, pGICS_SECTOR_NAME = ''S'', pTURNOVER = 2 \<rparr>,
             \<lparr> pticker = ''B'', Optimized_Weight = 1, pCUST_TRR_RETURN_HOLDING_PER = 0,
               pBETA_RAW_OVERRIDABLE = 1, pGICS_SECTOR_NAME = ''S'', pTURNOVER = 2 \<rparr>]"

definition ex_portfolios :: "(date \<times> portfolio) list" where
  "ex_portfolios = [(2, ex_pf1), (3, ex_pf2)]"

definition ex_e1 :: schedule_row where
  "ex_e1 = \<lparr> Third_to_Last_Friday = 2, Second_to_Last_Friday = 3, Third_to_Last_Thursday = 1 \<rparr>"

definition ex_e2 :: schedule_row where
  "ex_e2 = \<lparr> Third_to_Last_Friday = 3, Second_to_Last_Friday = 9, Third_to_Last_Thursday = 2 \<rparr>"

definition ex_e3 :: schedule_row where
  "ex_e3 = \<lparr> Third_to_Last_Friday = 5, Second_to_Last_Friday = 12, Third_to_Last_Thursday = 4 \<rparr>"

definition ex_schedule :: "schedule_row list" where
  "ex_schedule = [ex_e1, ex_e2, ex_e3]"

text \<open>
  A universe of four assets, one of them with a missing beta, and a solver that answers
  the problem with cap 1 on this universe by its optimum and everything else by the
  status \<open>infeasible\<close>.
\<close>

definition ex_universe :: "asset_row list" where
  "ex_universe =
     [\<lparr> ticker = ''A'', CUST_TRR_RETURN_HOLDING_PER = Some 0, BETA_RAW_OVERRIDABLE = Some 1,
        GICS_SECTOR_NAME = Some ''Energy'', TURNOVER = Some 2 \<rparr>,
      \<lparr> ticker = ''N'', CUST_TRR_RETURN_HOLDING_PER = Some 5, BETA_RAW_OVERRIDABLE = None,
        GICS_SECTOR_NAME = Some ''Energy'', TURNOVER = Some 2 \<rparr>,
      \<lparr> ticker = ''B'', CUST_TRR_RETURN_HOLDING_PER = Some 2, BETA_RAW_OVERRIDABLE = Some (1/2),
        GICS_SECTOR_NAME = Some ''Banks'', TURNOVER = Some 2 \<rparr>,
      \<lparr> ticker = ''C'', CUST_TRR_RETURN_HOLDING_PER = Some 4, BETA_RAW_OVERRIDABLE = Some 1,
        GICS_SECTOR_NAME = Some ''Energy'', TURNOVER = Some 2 \<rparr>]"

definition ex_optimum :: solver_result where
  "ex_optimum = \<lparr> status = ''optimal'', problem_value = Some (-2),
     longs_value = [1, 0, 0], shorts_value = [0, 0, 1], z_value = [1, 0, 0] \<rparr>"

definition ex_infeasible :: solver_result where
  "ex_infeasible = \<lparr> status = ''infeasible'', problem_value = None,
     longs_value = [], shorts_value = [], z_value = [] \<rparr>"

definition ex_solver :: solver where
  "ex_solver p =
     (if list_ex (\<lambda>c. c = LongsLeZ 1) (constraints p) then Inr ex_optimum else Inr ex_infeasible)"

text \<open>
  A runner with one universe snapshot, before a grid search and after its first parameter
  combination (cap 1), which stored the table of the optimum for the entry date 2.
\<close>

definition ex_runner :: STRRunner where
  "ex_runner = \<lparr> schedule = ex_schedule, constituent_data = [(1, ex_universe)],
     returns = ex_returns, optimized_portfolios = [], solutions = [],
     cumulative_strategy_returns = [], strategy_returns = [] \<rparr>"

definition ex_table :: portfolio where
  "ex_table = map2 result_row (dropna ex_universe) [1, 0, -1]"

definition ex_runner1 :: STRRunner where
  "ex_runner1 = ex_runner \<lparr> optimized_portfolios := [(2, ex_table)], solutions := [(2, Some (-2))],
     cumulative_strategy_returns := zip [1, 2, 3, 4, 5] [1, 11/10, 11/10, 11/10, 11/10],
     strategy_returns := zip [1, 2, 3, 4, 5] [0, 1/10, 0, 0, 0] \<rparr>"

text \<open>
  The same universe with the turnover of the first asset at zero, which makes its signal
  and z-score NaN; a schedule of three windows that all contain the dates 4 and 5, each
  with a weight table; and a weight Series that repeats a ticker.
\<close>

definition ex_universe_zero_turnover :: "asset_row list" where
  "ex_universe_zero_turnover =
     [\<lparr> ticker = ''A'', CUST_TRR_RETURN_HOLDING_PER = Some 0, BETA_RAW_OVERRIDABLE = Some 1,
        GICS_SECTOR_NAME = Some ''Energy'', TURNOVER = Some 0 \<rparr>,
      \<lparr> ticker = ''B'', CUST_TRR_RETURN_HOLDING_PER = Some 2, BETA_RAW_OVERRIDABLE = Some (1/2),
        GICS_SECTOR_NAME = Some ''Banks'', TURNOVER = Some 2 \<rparr>,
      \<lparr> ticker = ''C'', CUST_TRR_RETURN_HOLDING_PER = Some 4, BETA_RAW_OVERRIDABLE = Some 1,
        GICS_SECTOR_NAME = Some ''Energy'', TURNOVER = Some 2 \<rparr>]"

definition ex_portfolios3 :: "(date \<times> portfolio) list" where
  "ex_portfolios3 = [(2, ex_pf1), (3, ex_pf2), (4, ex_pf1)]"

definition ex_w1 :: schedule_row where
  "ex_w1 = \<lparr> Third_to_Last_Friday = 2, Second_to_Last_Friday = 5, Third_to_Last_Thursday = 1 \<rparr>"

definition ex_w2 :: schedule_row where
  "ex_w2 = \<lparr> Third_to_Last_Friday = 3, Second_to_Last_Friday = 5, Third_to_Last_Thursday = 2 \<rparr>"

definition ex_w3 :: schedule_row where
  "ex_w3 = \<lparr> Third_to_Last_Friday = 4, Second_to_Last_Friday = 5, Third_to_Last_Thursday = 3 \<rparr>"

definition ex_schedule3 :: "schedule_row list" where
  "ex_schedule3 = [ex_w1, ex_w2, ex_w3]"

definition ex_repeated_weights :: "(string \<times> real) list" where
  "ex_repeated_weights = [(''A'', 1/2), (''A'', -1/4)]"

section \<open>Properties of the backtest\<close>


lemma length_holding_step:
  "length col = length (rows dr) \<Longrightarrow> length (holding_step ops dr col e) = length (rows dr)"
  by (simp add: holding_step_def loc_assign_def index_of_def Let_def split: option.splits)


lemma length_foldl_holding_step:
  "length col = length (rows dr) \<Longrightarrow>
   length (foldl (holding_step ops dr) col sched) = length (rows dr)"
  by (induction sched arbitrary: col) (simp_all add: length_holding_step)



lemma cumprod_from_length: "length (cumprod_from a xs) = length xs"
  by (induction xs arbitrary: a) simp_all

lemma cumprod_from_step:
  "t < length xs \<Longrightarrow>
   cumprod_from a xs ! t = (if t = 0 then a else cumprod_from a xs ! (t - 1)) * xs ! t"
proof (induction xs arbitrary: a t)
  case Nil
  then show ?case by simp
next
  case (Cons x xs)
  show ?case
  proof (cases t)
    case 0
    then show ?thesis by simp
  next
    case (Suc n)
    with Cons.prems have "n < length xs" by simp
    from Cons.IH [OF this, of "a * x"] Suc show ?thesis
      by (cases n) simp_all
  qed
qed

lemmas backtest_defs = backtest_strategy_def holding_step_def loc_assign_def loc_slice_def
  weighted_row_sum_def nansum_def row_products_def weight_series_def index_of_def fillna_def
  cumprod_def

lemmas ex_defs = ex_returns_def ex_pf1_def ex_pf2_def ex_portfolios_def ex_e1_def ex_e2_def
  ex_e3_def ex_schedule_def ex_portfolios3_def ex_w1_def ex_w2_def ex_w3_def ex_schedule3_def



lemma length_backtest_column:
  "length (foldl (holding_step ops dr) (map (\<lambda>_. Some 0) (index_of dr)) sched) = length (rows dr)"
  by (rule length_foldl_holding_step) (simp add: index_of_def)




text \<open>
  When the weight Series lists exactly the columns, in their order, and no return is
  NaN, the row sum is the dot product of the row with the weights.
\<close>

lemma filter_ticker_absent:
  "c \<notin> fst ` set w \<Longrightarrow> filter (\<lambda>tw. fst tw = c) w = []"
  by (induction w) auto

lemma weighted_row_sum_aligned_aux:
  assumes "length xs = length cols" and "length cols = length ys" and "distinct cols"
    and "fst ` set pre \<inter> set cols = {}"
  shows "weighted_row_sum cols (pre @ zip cols ys) (map Some xs) = sum_list (map2 (*) xs ys)"
  using assms
proof (induction xs cols ys arbitrary: pre rule: list_induct3)
  case Nil
  then show ?case by (simp add: weighted_row_sum_def nansum_def)
next
  case (Cons x xs c cols y ys)
  have c1: "filter (\<lambda>tw. fst tw = c) pre = []"
    using Cons.prems by (intro filter_ticker_absent) auto
  have c2: "filter (\<lambda>tw. fst tw = c) (zip cols ys) = []"
    using Cons.prems by (intro filter_ticker_absent) (auto dest: set_zip_leftD)
  have head: "nansum (row_products (pre @ (c, y) # zip cols ys) (c, Some x)) = x * y"
    by (simp add: row_products_def nansum_def c1 c2)
  have "weighted_row_sum cols ((pre @ [(c, y)]) @ zip cols ys) (map Some xs) = sum_list (map2 (*) xs ys)"
    using Cons.prems by (intro Cons.IH) auto
  then have tail: "weighted_row_sum cols (pre @ (c, y) # zip cols ys) (map Some xs) = sum_list (map2 (*) xs ys)"
    by simp
  have "weighted_row_sum (c # cols) (pre @ zip (c # cols) (y # ys)) (map Some (x # xs)) =
        nansum (row_products (pre @ (c, y) # zip cols ys) (c, Some x)) +
        weighted_row_sum cols (pre @ (c, y) # zip cols ys) (map Some xs)"
    by (simp add: weighted_row_sum_def nansum_def)
  with head tail show ?case by simp
qed

lemma weighted_row_sum_dot_product:
  assumes "length xs = length cols" and "length cols = length ys" and "distinct cols"
  shows "weighted_row_sum cols (zip cols ys) (map Some xs) = sum_list (map2 (*) xs ys)"
  using weighted_row_sum_aligned_aux [OF assms, of "[]"] by simp

text \<open>
  The row sum on a weight Series that repeats a ticker: the column is multiplied by each
  of the two weights and both products are summed.
\<close>

lemma weighted_row_sum_repeated_ticker:
  "weighted_row_sum [''A''] ex_repeated_weights [Some (1/2)] = 1/8"
  by (simp add: weighted_row_sum_def row_products_def nansum_def ex_repeated_weights_def)



lemma Cumulative_Returns_eq:
  "Cumulative_Returns (backtest_strategy ops sched dr) =
     cumprod_from 1 (map (\<lambda>r. 1 + r) (Portfolio_Returns (backtest_strategy ops sched dr)))"
  by (simp add: backtest_strategy_def Let_def cumprod_def)

lemma length_Portfolio_Returns:
  "length (Portfolio_Returns (backtest_strategy ops sched dr)) = length (rows dr)"
  by (simp add: backtest_strategy_def Let_def fillna_def length_backtest_column)

lemma sindex_backtest: "sindex (backtest_strategy ops sched dr) = index_of dr"
  by (simp add: backtest_strategy_def Let_def)


text \<open>
  Claim C5. The cumulative series is as long as the index, and at every position it is
  the previous cumulative value, or 1 at the first position, times one plus the
  portfolio return of that position.
\<close>
theorem cumulative_returns_recurrence:
  "length (Cumulative_Returns (backtest_strategy portfolios sched daily_returns)) =
     length (sindex (backtest_strategy portfolios sched daily_returns)) \<and>
   (\<forall>t < length (sindex (backtest_strategy portfolios sched daily_returns)).
      Cumulative_Returns (backtest_strategy portfolios sched daily_returns) ! t =
        (if t = 0 then 1
         else Cumulative_Returns (backtest_strategy portfolios sched daily_returns) ! (t - 1)) *
        (1 + Portfolio_Returns (backtest_strategy portfolios sched daily_returns) ! t))"
proof -
  let ?out = "backtest_strategy portfolios sched daily_returns"
  let ?xs = "map (\<lambda>r. 1 + r) (Portfolio_Returns ?out)"
  have cum: "Cumulative_Returns ?out = cumprod_from 1 ?xs"
    by (rule Cumulative_Returns_eq)
  have len: "length ?xs = length (sindex ?out)"
    by (simp add: length_Portfolio_Returns sindex_backtest index_of_def)
  have "cumprod_from 1 ?xs ! t =
          (if t = 0 then 1 else cumprod_from 1 ?xs ! (t - 1)) * (1 + Portfolio_Returns ?out ! t)"
    if "t < length (sindex ?out)" for t
  proof -
    from that len have t: "t < length ?xs" by simp
    then have "t < length (Portfolio_Returns ?out)" by simp
    then have "?xs ! t = 1 + Portfolio_Returns ?out ! t" by (rule nth_map)
    with cumprod_from_step [OF t, of 1] show ?thesis by simp
  qed
  with cum len show ?thesis
    by (simp add: cumprod_from_length)
qed

theorem cumulative_returns_recurrence_witness:
  "(2::nat) < length (sindex (backtest_strategy ex_portfolios ex_schedule ex_returns)) \<and>
   Cumulative_Returns (backtest_strategy ex_portfolios ex_schedule ex_returns) ! 2 =
     Cumulative_Returns (backtest_strategy ex_portfolios ex_schedule ex_returns) ! 1 *
     (1 + Portfolio_Returns (backtest_strategy ex_portfolios ex_schedule ex_returns) ! 2) \<and>
   Cumulative_Returns (backtest_strategy ex_portfolios ex_schedule ex_returns) ! 0 =
     1 * (1 + Portfolio_Returns (backtest_strategy ex_portfolios ex_schedule ex_returns) ! 0)"
proof -
  have l: "(2::nat) < length (sindex (backtest_strategy ex_portfolios ex_schedule ex_returns))"
    by (simp add: backtest_strategy_def index_of_def ex_returns_def Let_def)
  with cumulative_returns_recurrence [of ex_portfolios ex_schedule ex_returns]
  show ?thesis by force
qed







section \<open>Properties of the optimizer\<close>

lemmas optimize_defs = optimize_portfolio_def problem_solve_def portfolio_problem_def dropna_def isna_def Z_SCORE_def
  SIGNAL_def LOG_ADV_def replace0_def np_log_def cell_sub_def cell_div_def series_mean_def
  series_std_def notna_def sectors_of_def sector_dummy_def result_row_def weights_value_def
  OPTIMAL_def Let_def

lemmas ex_optimize_defs = ex_universe_def ex_optimum_def ex_infeasible_def ex_solver_def


lemma ex_problem:
  "portfolio_problem ex_universe (-1/100, 1/100) (-1/100, 1/100) 1 False =
   \<lparr> n_assets = 3, objective = [Some (-1), Some 0, Some 1],
     constraints = [SumLongsEq 1, SumShortsEq 1, LongsLeZ 1, ShortsLeOneMinusZ 1,
       WeightsGe [1, 1/2, 1] (-1/100), WeightsLe [1, 1/2, 1] (1/100),
       WeightsGe [0, 1, 0] (-1/100), WeightsLe [0, 1, 0] (1/100),
       WeightsGe [1, 0, 1] (-1/100), WeightsLe [1, 0, 1] (1/100)] \<rparr>"
  by (simp add: optimize_defs ex_optimize_defs)

lemma ex_solve:
  "ex_solver (portfolio_problem ex_universe (-1/100, 1/100) (-1/100, 1/100) 1 False) = Inr ex_optimum"
  unfolding ex_problem by (simp add: ex_solver_def)

lemma ex_satisfies:
  "satisfies (portfolio_problem ex_universe (-1/100, 1/100) (-1/100, 1/100) 1 False) ex_optimum"
  unfolding ex_problem by (simp add: satisfies_def ex_optimize_defs dot_def weights_value_def)

lemma ex_optimize_table:
  "optimize_portfolio ex_solver ex_universe (-1/100, 1/100) (-1/100, 1/100) 1 False =
     Inr (map2 result_row (dropna ex_universe) [1, 0, -1], Some (-2))"
  unfolding optimize_portfolio_def problem_solve_def ex_problem
  by (simp add: ex_optimize_defs weights_value_def OPTIMAL_def isna_def)


lemma constraints_member:
  "LongsLeZ mw \<in> set (constraints (portfolio_problem data br sr mw lg))"
  "ShortsLeOneMinusZ mw \<in> set (constraints (portfolio_problem data br sr mw lg))"
  "SumLongsEq 1 \<in> set (constraints (portfolio_problem data br sr mw lg))"
  "SumShortsEq 1 \<in> set (constraints (portfolio_problem data br sr mw lg))"
  "WeightsGe (map (\<lambda>r. the (BETA_RAW_OVERRIDABLE r)) (dropna data)) (fst br)
     \<in> set (constraints (portfolio_problem data br sr mw lg))"
  "WeightsLe (map (\<lambda>r. the (BETA_RAW_OVERRIDABLE r)) (dropna data)) (snd br)
     \<in> set (constraints (portfolio_problem data br sr mw lg))"
  by (simp_all add: portfolio_problem_def Let_def)

lemma sector_constraints_member:
  assumes "sector \<in> set (sectors_of (dropna data))"
  shows "WeightsGe (sector_dummy (dropna data) sector) (fst sr)
           \<in> set (constraints (portfolio_problem data br sr mw lg))"
    and "WeightsLe (sector_dummy (dropna data) sector) (snd sr)
           \<in> set (constraints (portfolio_problem data br sr mw lg))"
  using assms by (auto simp add: portfolio_problem_def Let_def)

lemma n_assets_problem: "n_assets (portfolio_problem data br sr mw lg) = length (dropna data)"
  by (simp add: portfolio_problem_def Let_def)

lemma satisfies_holds:
  "satisfies p res \<Longrightarrow> c \<in> set (constraints p) \<Longrightarrow> holds res c"
  by (simp add: satisfies_def list_all_iff)

text \<open>Each asset is long or short, never both, and each side stays below the cap.\<close>

lemma exclusive_sides:
  fixes c :: real
  assumes "list_all2 (\<lambda>l z. l \<le> c * z) ls zs"
    and "list_all2 (\<lambda>s z. s \<le> c * (1 - z)) ss zs"
    and "list_all (\<lambda>x. 0 \<le> x) ls" and "list_all (\<lambda>x. 0 \<le> x) ss"
    and "list_all (\<lambda>x. x = 0 \<or> x = 1) zs"
  shows "list_all2 (\<lambda>l s. 0 \<le> l \<and> 0 \<le> s \<and> l \<le> c \<and> s \<le> c \<and> (l = 0 \<or> s = 0)) ls ss"
proof (rule list_all2_all_nthI)
  show "length ls = length ss"
    using assms(1,2) by (simp add: list_all2_lengthD)
next
  fix i assume i: "i < length ls"
  have lz: "length ls = length zs" and sz: "length ss = length zs"
    using assms(1,2) by (simp_all add: list_all2_lengthD)
  have l: "ls ! i \<le> c * zs ! i"
    using assms(1) i by (simp add: list_all2_conv_all_nth)
  have s: "ss ! i \<le> c * (1 - zs ! i)"
    using assms(2) i lz sz by (simp add: list_all2_conv_all_nth)
  have l0: "0 \<le> ls ! i" using assms(3) i by (simp add: list_all_length)
  have s0: "0 \<le> ss ! i" using assms(4) i lz sz by (simp add: list_all_length)
  have z: "zs ! i = 0 \<or> zs ! i = 1" using assms(5) i lz by (simp add: list_all_length)
  then show "0 \<le> ls ! i \<and> 0 \<le> ss ! i \<and> ls ! i \<le> c \<and> ss ! i \<le> c \<and> (ls ! i = 0 \<or> ss ! i = 0)"
  proof
    assume "zs ! i = 0"
    with l s have "ls ! i \<le> 0" and "ss ! i \<le> c" by simp_all
    with l0 s0 show ?thesis by auto
  next
    assume "zs ! i = 1"
    with l s have "ls ! i \<le> c" and "ss ! i \<le> 0" by simp_all
    with l0 s0 show ?thesis by auto
  qed
qed

lemma satisfies_exclusive:
  assumes "satisfies (portfolio_problem data br sr mw lg) res"
  shows "list_all2 (\<lambda>l s. 0 \<le> l \<and> 0 \<le> s \<and> l \<le> mw \<and> s \<le> mw \<and> (l = 0 \<or> s = 0))
           (longs_value res) (shorts_value res)"
proof -
  from satisfies_holds [OF assms constraints_member(1)]
  have a: "list_all2 (\<lambda>l z. l \<le> mw * z) (longs_value res) (z_value res)" by simp
  from satisfies_holds [OF assms constraints_member(2)]
  have b: "list_all2 (\<lambda>s z. s \<le> mw * (1 - z)) (shorts_value res) (z_value res)" by simp
  from assms have "list_all (\<lambda>x. 0 \<le> x) (longs_value res)"
    "list_all (\<lambda>x. 0 \<le> x) (shorts_value res)" "list_all (\<lambda>x. x = 0 \<or> x = 1) (z_value res)"
    by (simp_all add: satisfies_def)
  with a b show ?thesis by (rule exclusive_sides)
qed

lemma positive_part_sum:
  "list_all2 (\<lambda>l s. 0 \<le> l \<and> 0 \<le> s \<and> l \<le> (c::real) \<and> s \<le> c \<and> (l = 0 \<or> s = 0)) ls ss \<Longrightarrow>
   sum_list (filter (\<lambda>w. 0 < w) (map2 (-) ls ss)) = sum_list ls"
  by (induction rule: list_all2_induct) auto

lemma negative_part_sum:
  "list_all2 (\<lambda>l s. 0 \<le> l \<and> 0 \<le> s \<and> l \<le> (c::real) \<and> s \<le> c \<and> (l = 0 \<or> s = 0)) ls ss \<Longrightarrow>
   sum_list (filter (\<lambda>w. w < 0) (map2 (-) ls ss)) = - sum_list ss"
  by (induction rule: list_all2_induct) auto

lemma weights_within_cap:
  "list_all2 (\<lambda>l s. 0 \<le> l \<and> 0 \<le> s \<and> l \<le> (c::real) \<and> s \<le> c \<and> (l = 0 \<or> s = 0)) ls ss \<Longrightarrow>
   \<forall>w \<in> set (map2 (-) ls ss). \<bar>w\<bar> \<le> c"
  by (induction rule: list_all2_induct) (auto simp add: abs_le_iff)

text \<open>The returned table carries the weights \<open>longs.value - shorts.value\<close>, row by row.\<close>

lemma Optimized_Weight_result:
  "length ws = length data \<Longrightarrow> map Optimized_Weight (map2 result_row data ws) = ws"
  by (induction data ws rule: list_induct2') (simp_all add: result_row_def)

lemma optimize_portfolio_Inr:
  assumes "optimize_portfolio solve data br sr mw lg = Inr (tbl, sol)"
    and "solve (portfolio_problem data br sr mw lg) = Inr res"
  shows "tbl = map2 result_row (dropna data) (weights_value res)"
    and "status res = OPTIMAL"
    and "problem_solve solve (portfolio_problem data br sr mw lg) = Inr res"
  using assms
  by (simp_all add: optimize_portfolio_def problem_solve_def Let_def split: if_splits sum.splits)

lemma length_weights_value:
  "satisfies (portfolio_problem data br sr mw lg) res \<Longrightarrow>
   length (weights_value res) = length (dropna data)"
  by (simp add: satisfies_def weights_value_def n_assets_problem)

lemma returned_weights:
  assumes "optimize_portfolio solve data br sr mw lg = Inr (tbl, sol)"
    and "solve (portfolio_problem data br sr mw lg) = Inr res"
    and "satisfies (portfolio_problem data br sr mw lg) res"
  shows "map Optimized_Weight tbl = weights_value res"
  using optimize_portfolio_Inr(1) [OF assms(1,2)] length_weights_value [OF assms(3)]
  by (simp only: Optimized_Weight_result)

text \<open>
  Claim C1. Whenever \<open>optimize_portfolio\<close> returns and the solver's optimal assignment
  satisfies the problem it was given, the strictly positive entries of the returned
  weight column sum to 1 and the strictly negative entries sum to -1 (exactly, in real
  arithmetic).
\<close>
theorem long_and_short_book_unit_sums:
  assumes "optimize_portfolio solve data beta_range sector_range max_weight log_flag = Inr (tbl, sol)"
    and "solve (portfolio_problem data beta_range sector_range max_weight log_flag) = Inr res"
    and "satisfies (portfolio_problem data beta_range sector_range max_weight log_flag) res"
  shows "sum_list (filter (\<lambda>w. 0 < w) (map Optimized_Weight tbl)) = 1 \<and>
         sum_list (filter (\<lambda>w. w < 0) (map Optimized_Weight tbl)) = - 1"
proof -
  let ?res = "res"
  have w: "map Optimized_Weight tbl = map2 (-) (longs_value ?res) (shorts_value ?res)"
    using returned_weights [OF assms] by (simp add: weights_value_def)
  have ex: "list_all2 (\<lambda>l s. 0 \<le> l \<and> 0 \<le> s \<and> l \<le> max_weight \<and> s \<le> max_weight \<and> (l = 0 \<or> s = 0))
           (longs_value ?res) (shorts_value ?res)"
    using assms(3) by (rule satisfies_exclusive)
  have "sum_list (longs_value ?res) = 1"
    using satisfies_holds [OF assms(3) constraints_member(3)] by simp
  moreover have "sum_list (shorts_value ?res) = 1"
    using satisfies_holds [OF assms(3) constraints_member(4)] by simp
  ultimately show ?thesis
    using positive_part_sum [OF ex] negative_part_sum [OF ex] w by simp
qed

theorem long_and_short_book_unit_sums_witness:
  "optimize_portfolio ex_solver ex_universe (-1/100, 1/100) (-1/100, 1/100) 1 False =
     Inr (map2 result_row (dropna ex_universe) [1, 0, -1], Some (-2)) \<and>
   ex_solver (portfolio_problem ex_universe (-1/100, 1/100) (-1/100, 1/100) 1 False) = Inr ex_optimum \<and>
   satisfies (portfolio_problem ex_universe (-1/100, 1/100) (-1/100, 1/100) 1 False) ex_optimum \<and>
   sum_list (filter (\<lambda>w. 0 < w)
     (map Optimized_Weight (map2 result_row (dropna ex_universe) [1, 0, -1]))) = 1 \<and>
   sum_list (filter (\<lambda>w. w < 0)
     (map Optimized_Weight (map2 result_row (dropna ex_universe) [1, 0, -1]))) = - 1"
proof -
  note r = ex_optimize_table
  note e = ex_solve
  note s = ex_satisfies
  from long_and_short_book_unit_sums [OF r e s] r e s show ?thesis by blast
qed

text \<open>
  Claim C2. Whenever \<open>optimize_portfolio\<close> returns and the solver's optimal assignment
  satisfies the problem it was given, every returned weight has absolute value at most
  \<open>max_weight\<close>, and no asset has both a strictly positive long weight and a strictly
  positive short weight.
\<close>
theorem weight_cap_and_exclusivity:
  assumes "optimize_portfolio solve data beta_range sector_range max_weight log_flag = Inr (tbl, sol)"
    and "solve (portfolio_problem data beta_range sector_range max_weight log_flag) = Inr res"
    and "satisfies (portfolio_problem data beta_range sector_range max_weight log_flag) res"
  shows "(\<forall>r \<in> set tbl. \<bar>Optimized_Weight r\<bar> \<le> max_weight) \<and>
    (\<forall>i < length tbl.
       \<not> (0 < longs_value res ! i \<and> 0 < shorts_value res ! i))"
proof -
  let ?res = "res"
  have w: "map Optimized_Weight tbl = map2 (-) (longs_value ?res) (shorts_value ?res)"
    using returned_weights [OF assms] by (simp add: weights_value_def)
  have ex: "list_all2 (\<lambda>l s. 0 \<le> l \<and> 0 \<le> s \<and> l \<le> max_weight \<and> s \<le> max_weight \<and> (l = 0 \<or> s = 0))
           (longs_value ?res) (shorts_value ?res)"
    using assms(3) by (rule satisfies_exclusive)
  have cap: "\<forall>r \<in> set tbl. \<bar>Optimized_Weight r\<bar> \<le> max_weight"
  proof
    fix r assume "r \<in> set tbl"
    then have "Optimized_Weight r \<in> set (map Optimized_Weight tbl)" by simp
    then have "Optimized_Weight r \<in> set (map2 (-) (longs_value ?res) (shorts_value ?res))"
      by (simp only: w)
    with weights_within_cap [OF ex] show "\<bar>Optimized_Weight r\<bar> \<le> max_weight" by blast
  qed
  have len: "length tbl = length (longs_value ?res)"
  proof -
    have "length tbl = length (map Optimized_Weight tbl)" by simp
    also have "\<dots> = length (longs_value ?res)"
      using w list_all2_lengthD [OF ex] by simp
    finally show ?thesis .
  qed
  have excl: "\<forall>i < length tbl. \<not> (0 < longs_value ?res ! i \<and> 0 < shorts_value ?res ! i)"
  proof (intro allI impI)
    fix i assume "i < length tbl"
    with len have "i < length (longs_value ?res)" by simp
    with ex have "longs_value ?res ! i = 0 \<or> shorts_value ?res ! i = 0"
      by (simp add: list_all2_conv_all_nth)
    then show "\<not> (0 < longs_value ?res ! i \<and> 0 < shorts_value ?res ! i)" by auto
  qed
  from cap excl show ?thesis by simp
qed

theorem weight_cap_and_exclusivity_witness:
  "optimize_portfolio ex_solver ex_universe (-1/100, 1/100) (-1/100, 1/100) 1 False =
     Inr (map2 result_row (dropna ex_universe) [1, 0, -1], Some (-2)) \<and>
   ex_solver (portfolio_problem ex_universe (-1/100, 1/100) (-1/100, 1/100) 1 False) = Inr ex_optimum \<and>
   satisfies (portfolio_problem ex_universe (-1/100, 1/100) (-1/100, 1/100) 1 False) ex_optimum \<and>
   list_all (\<lambda>r. \<bar>Optimized_Weight r\<bar> \<le> 1) (map2 result_row (dropna ex_universe) [1, 0, -1]) \<and>
   \<not> (0 < longs_value ex_optimum ! 0 \<and> 0 < shorts_value ex_optimum ! 0)"
proof -
  note r = ex_optimize_table
  note e = ex_solve
  note s = ex_satisfies
  have l: "(0::nat) < length (map2 result_row (dropna ex_universe) [1, 0, -1 :: real])"
    by (simp add: ex_universe_def dropna_def isna_def)
  from weight_cap_and_exclusivity [OF r e s] l r e s show ?thesis
    by (simp only: list_all_iff) blast
qed

lemma beta_exposure_sum:
  "length ws = length data \<Longrightarrow>
   sum_list (map (\<lambda>r. pBETA_RAW_OVERRIDABLE r * Optimized_Weight r) (map2 result_row data ws)) =
   dot (map (\<lambda>r. the (BETA_RAW_OVERRIDABLE r)) data) ws"
  by (induction data ws rule: list_induct2') (simp_all add: result_row_def dot_def)

lemma sector_exposure_sum:
  "length ws = length data \<Longrightarrow> \<forall>r \<in> set data. \<not> isna (GICS_SECTOR_NAME r) \<Longrightarrow>
   sum_list (map Optimized_Weight
     (filter (\<lambda>r. pGICS_SECTOR_NAME r = sector) (map2 result_row data ws))) =
   dot (sector_dummy data sector) ws"
proof (induction data ws rule: list_induct2')
  case (4 r data w ws)
  from "4.prems" obtain s where s: "GICS_SECTOR_NAME r = Some s"
    by (cases "GICS_SECTOR_NAME r") (simp_all add: isna_def)
  have "sum_list (map Optimized_Weight
     (filter (\<lambda>r. pGICS_SECTOR_NAME r = sector) (map2 result_row data ws))) =
   dot (sector_dummy data sector) ws"
    using "4.prems" by (intro "4.IH") simp_all
  then show ?case
    using s by (simp add: result_row_def dot_def sector_dummy_def)
qed (simp_all add: dot_def sector_dummy_def)

lemma dropna_sector: "r \<in> set (dropna data) \<Longrightarrow> \<not> isna (GICS_SECTOR_NAME r)"
  by (simp add: dropna_def)

lemma table_sectors:
  "set (map pGICS_SECTOR_NAME (map2 result_row data ws)) \<subseteq> set (sectors_of data)"
proof
  fix s assume "s \<in> set (map pGICS_SECTOR_NAME (map2 result_row data ws))"
  then obtain r w where "(r, w) \<in> set (zip data ws)" and "s = pGICS_SECTOR_NAME (result_row r w)"
    by auto
  then have "r \<in> set data" and "s = the (GICS_SECTOR_NAME r)"
    by (auto simp add: result_row_def dest: set_zip_leftD)
  then show "s \<in> set (sectors_of data)"
    by (auto simp add: sectors_of_def)
qed

text \<open>
  Claim C3. Whenever \<open>optimize_portfolio\<close> returns and the solver's optimal assignment
  satisfies the problem it was given, the net beta exposure of the returned table (the
  sum of beta times weight) lies within \<open>beta_range\<close>, and for every sector of the table
  the sum of the weights of the sector's members lies within \<open>sector_range\<close>, bounds
  included.
\<close>
theorem beta_and_sector_exposure_within_range:
  assumes "optimize_portfolio solve data beta_range sector_range max_weight log_flag = Inr (tbl, sol)"
    and "solve (portfolio_problem data beta_range sector_range max_weight log_flag) = Inr res"
    and "satisfies (portfolio_problem data beta_range sector_range max_weight log_flag) res"
  shows "fst beta_range \<le> sum_list (map (\<lambda>r. pBETA_RAW_OVERRIDABLE r * Optimized_Weight r) tbl) \<and>
    sum_list (map (\<lambda>r. pBETA_RAW_OVERRIDABLE r * Optimized_Weight r) tbl) \<le> snd beta_range \<and>
    (\<forall>sector \<in> set (map pGICS_SECTOR_NAME tbl).
       fst sector_range \<le>
         sum_list (map Optimized_Weight (filter (\<lambda>r. pGICS_SECTOR_NAME r = sector) tbl)) \<and>
       sum_list (map Optimized_Weight (filter (\<lambda>r. pGICS_SECTOR_NAME r = sector) tbl))
         \<le> snd sector_range)"
proof -
  let ?p = "portfolio_problem data beta_range sector_range max_weight log_flag"
  let ?res = "res"
  let ?ws = "weights_value ?res"
  have tbl: "tbl = map2 result_row (dropna data) ?ws"
    using assms(1,2) by (rule optimize_portfolio_Inr(1))
  have len: "length ?ws = length (dropna data)"
    using assms(3) by (rule length_weights_value)
  have beta: "sum_list (map (\<lambda>r. pBETA_RAW_OVERRIDABLE r * Optimized_Weight r) tbl) =
      dot (map (\<lambda>r. the (BETA_RAW_OVERRIDABLE r)) (dropna data)) ?ws"
    unfolding tbl using len by (rule beta_exposure_sum)
  have lo: "fst beta_range \<le> dot (map (\<lambda>r. the (BETA_RAW_OVERRIDABLE r)) (dropna data)) ?ws"
    using satisfies_holds [OF assms(3) constraints_member(5)] by simp
  have hi: "dot (map (\<lambda>r. the (BETA_RAW_OVERRIDABLE r)) (dropna data)) ?ws \<le> snd beta_range"
    using satisfies_holds [OF assms(3) constraints_member(6)] by simp
  have sec: "fst sector_range \<le>
         sum_list (map Optimized_Weight (filter (\<lambda>r. pGICS_SECTOR_NAME r = sector) tbl)) \<and>
       sum_list (map Optimized_Weight (filter (\<lambda>r. pGICS_SECTOR_NAME r = sector) tbl))
         \<le> snd sector_range"
    if "sector \<in> set (map pGICS_SECTOR_NAME tbl)" for sector
  proof -
    from that have m: "sector \<in> set (sectors_of (dropna data))"
      unfolding tbl using table_sectors by blast
    have e: "sum_list (map Optimized_Weight (filter (\<lambda>r. pGICS_SECTOR_NAME r = sector) tbl)) =
        dot (sector_dummy (dropna data) sector) ?ws"
      unfolding tbl using len by (rule sector_exposure_sum) (simp add: dropna_sector)
    from satisfies_holds [OF assms(3) sector_constraints_member(1) [OF m]]
    have "fst sector_range \<le> dot (sector_dummy (dropna data) sector) ?ws" by simp
    moreover from satisfies_holds [OF assms(3) sector_constraints_member(2) [OF m]]
    have "dot (sector_dummy (dropna data) sector) ?ws \<le> snd sector_range" by simp
    ultimately show ?thesis using e by simp
  qed
  from beta lo hi sec show ?thesis by simp
qed

theorem beta_and_sector_exposure_within_range_witness:
  "optimize_portfolio ex_solver ex_universe (-1/100, 1/100) (-1/100, 1/100) 1 False =
     Inr (map2 result_row (dropna ex_universe) [1, 0, -1], Some (-2)) \<and>
   ex_solver (portfolio_problem ex_universe (-1/100, 1/100) (-1/100, 1/100) 1 False) = Inr ex_optimum \<and>
   satisfies (portfolio_problem ex_universe (-1/100, 1/100) (-1/100, 1/100) 1 False) ex_optimum \<and>
   - 1 / 100 \<le> sum_list (map (\<lambda>r. pBETA_RAW_OVERRIDABLE r * Optimized_Weight r)
       (map2 result_row (dropna ex_universe) [1, 0, -1])) \<and>
   sum_list (map (\<lambda>r. pBETA_RAW_OVERRIDABLE r * Optimized_Weight r)
       (map2 result_row (dropna ex_universe) [1, 0, -1])) \<le> 1 / 100 \<and>
   ''Energy'' \<in> set (map pGICS_SECTOR_NAME (map2 result_row (dropna ex_universe) [1, 0, -1])) \<and>
   - 1 / 100 \<le> sum_list (map Optimized_Weight (filter (\<lambda>r. pGICS_SECTOR_NAME r = ''Energy'')
       (map2 result_row (dropna ex_universe) [1, 0, -1]))) \<and>
   sum_list (map Optimized_Weight (filter (\<lambda>r. pGICS_SECTOR_NAME r = ''Energy'')
       (map2 result_row (dropna ex_universe) [1, 0, -1]))) \<le> 1 / 100"
proof -
  note r = ex_optimize_table
  note e = ex_solve
  note s = ex_satisfies
  have m: "''Energy'' \<in> set (map pGICS_SECTOR_NAME (map2 result_row (dropna ex_universe) [1, 0, -1]))"
    by (simp add: ex_universe_def dropna_def isna_def result_row_def)
  from beta_and_sector_exposure_within_range [OF r e s] m r e s show ?thesis
    by (simp del: set_map) 
qed

lemma ex_zero_turnover_raises:
  "problem_solve ex_solver
     (portfolio_problem ex_universe_zero_turnover (-1/100, 1/100) (-1/100, 1/100) 1 False) =
   Inl LibraryValueError"
  by (simp add: problem_solve_def portfolio_problem_def Z_SCORE_def SIGNAL_def LOG_ADV_def
      replace0_def cell_div_def cell_sub_def dropna_def isna_def ex_universe_zero_turnover_def
      Let_def)

lemma ex_infeasible_solve:
  "problem_solve ex_solver
     (portfolio_problem ex_universe (-1/100, 1/100) (-1/100, 1/100) (1/2) False) =
   Inr ex_infeasible"
  by (simp add: optimize_defs ex_optimize_defs)

text \<open>
  Claim C6, amended. When \<open>problem.solve\<close> returns, \<open>optimize_portfolio\<close> raises the error
  whose message carries the solver's status exactly when that status is not \<open>optimal\<close>.
  When \<open>problem.solve\<close> itself raises, as it does for an empty universe and for an
  objective that holds a NaN, that exception leaves the function unchanged and carries
  no status. A weight table is returned exactly when the solver returns with the status
  \<open>optimal\<close>, so no failure yields a table.
\<close>
theorem optimization_failure_cases:
  "(\<forall>res. problem_solve solve (portfolio_problem data beta_range sector_range max_weight log_flag) = Inr res \<longrightarrow>
      (optimize_portfolio solve data beta_range sector_range max_weight log_flag =
         Inl (ValueError (''Optimization failed. Status: '' @ status res))
       \<longleftrightarrow> status res \<noteq> OPTIMAL)) \<and>
   (\<forall>e. problem_solve solve (portfolio_problem data beta_range sector_range max_weight log_flag) = Inl e \<longrightarrow>
      optimize_portfolio solve data beta_range sector_range max_weight log_flag = Inl e) \<and>
   (n_assets (portfolio_problem data beta_range sector_range max_weight log_flag) = 0 \<or>
    list_ex isna (objective (portfolio_problem data beta_range sector_range max_weight log_flag)) \<longrightarrow>
      optimize_portfolio solve data beta_range sector_range max_weight log_flag = Inl LibraryValueError) \<and>
   ((\<exists>tbl sol. optimize_portfolio solve data beta_range sector_range max_weight log_flag = Inr (tbl, sol))
    \<longleftrightarrow> (\<exists>res. problem_solve solve (portfolio_problem data beta_range sector_range max_weight log_flag) = Inr res \<and>
              status res = OPTIMAL))"
proof (intro conjI allI impI)
  fix res
  assume "problem_solve solve (portfolio_problem data beta_range sector_range max_weight log_flag) = Inr res"
  then show "optimize_portfolio solve data beta_range sector_range max_weight log_flag =
         Inl (ValueError (''Optimization failed. Status: '' @ status res))
       \<longleftrightarrow> status res \<noteq> OPTIMAL"
    by (simp add: optimize_portfolio_def Let_def)
next
  fix e
  assume "problem_solve solve (portfolio_problem data beta_range sector_range max_weight log_flag) = Inl e"
  then show "optimize_portfolio solve data beta_range sector_range max_weight log_flag = Inl e"
    by (simp add: optimize_portfolio_def Let_def)
next
  assume "n_assets (portfolio_problem data beta_range sector_range max_weight log_flag) = 0 \<or>
    list_ex isna (objective (portfolio_problem data beta_range sector_range max_weight log_flag))"
  then have "problem_solve solve (portfolio_problem data beta_range sector_range max_weight log_flag)
      = Inl LibraryValueError"
    by (simp add: problem_solve_def)
  then show "optimize_portfolio solve data beta_range sector_range max_weight log_flag = Inl LibraryValueError"
    by (simp add: optimize_portfolio_def Let_def)
next
  show "(\<exists>tbl sol. optimize_portfolio solve data beta_range sector_range max_weight log_flag = Inr (tbl, sol))
    \<longleftrightarrow> (\<exists>res. problem_solve solve (portfolio_problem data beta_range sector_range max_weight log_flag) = Inr res \<and>
              status res = OPTIMAL)"
    by (cases "problem_solve solve (portfolio_problem data beta_range sector_range max_weight log_flag)")
      (simp_all add: optimize_portfolio_def Let_def)
qed

theorem optimization_failure_cases_witness:
  "problem_solve ex_solver
     (portfolio_problem ex_universe (-1/100, 1/100) (-1/100, 1/100) (1/2) False) = Inr ex_infeasible \<and>
   status ex_infeasible \<noteq> OPTIMAL \<and>
   optimize_portfolio ex_solver ex_universe (-1/100, 1/100) (-1/100, 1/100) (1/2) False =
     Inl (ValueError (''Optimization failed. Status: '' @ status ex_infeasible)) \<and>
   problem_solve ex_solver
     (portfolio_problem ex_universe_zero_turnover (-1/100, 1/100) (-1/100, 1/100) 1 False) =
     Inl LibraryValueError \<and>
   optimize_portfolio ex_solver ex_universe_zero_turnover (-1/100, 1/100) (-1/100, 1/100) 1 False =
     Inl LibraryValueError"
proof -
  note a = ex_infeasible_solve
  have ne: "status ex_infeasible \<noteq> OPTIMAL"
    by (simp add: ex_infeasible_def OPTIMAL_def)
  note b = ex_zero_turnover_raises
  from optimization_failure_cases
    [of ex_solver ex_universe "(-1/100, 1/100)" "(-1/100, 1/100)" "1/2" False] a ne
  have c: "optimize_portfolio ex_solver ex_universe (-1/100, 1/100) (-1/100, 1/100) (1/2) False =
     Inl (ValueError (''Optimization failed. Status: '' @ status ex_infeasible))"
    by blast
  from optimization_failure_cases
    [of ex_solver ex_universe_zero_turnover "(-1/100, 1/100)" "(-1/100, 1/100)" 1 False] b
  have d: "optimize_portfolio ex_solver ex_universe_zero_turnover (-1/100, 1/100) (-1/100, 1/100) 1 False =
     Inl LibraryValueError"
    by blast
  from a ne c b d show ?thesis by blast
qed

text \<open>
  On the universe whose first asset has a zero turnover the z-score of that asset is
  NaN: \<open>problem.solve\<close> raises before the solver reports any status, and the error that
  leaves \<open>optimize_portfolio\<close> is the library's, not the one that carries a status.
\<close>
theorem optimization_failure_status_counterexample:
  "objective (portfolio_problem ex_universe_zero_turnover (-1/100, 1/100) (-1/100, 1/100) 1 False) ! 0
     = None \<and>
   optimize_portfolio ex_solver ex_universe_zero_turnover (-1/100, 1/100) (-1/100, 1/100) 1 False =
     Inl LibraryValueError"
proof -
  have "objective (portfolio_problem ex_universe_zero_turnover (-1/100, 1/100) (-1/100, 1/100) 1 False) ! 0
     = None"
    by (simp add: portfolio_problem_def Z_SCORE_def SIGNAL_def LOG_ADV_def
      replace0_def cell_div_def cell_sub_def dropna_def isna_def ex_universe_zero_turnover_def
      Let_def)
  moreover have "optimize_portfolio ex_solver ex_universe_zero_turnover (-1/100, 1/100) (-1/100, 1/100) 1 False =
     Inl LibraryValueError"
    using ex_zero_turnover_raises by (simp add: optimize_portfolio_def Let_def)
  ultimately show ?thesis by blast
qed

lemma objective_problem:
  "objective (portfolio_problem data br sr mw lg) = Z_SCORE lg (dropna data)"
  by (simp add: portfolio_problem_def Let_def)

lemma ex_signal: "SIGNAL False (dropna ex_universe) = [Some 0, Some 1, Some 2]"
  by (simp add: optimize_defs ex_universe_def)

text \<open>
  Claim C7, amended. The objective handed to the solver holds, for every asset of the
  filtered universe with a signal, the signal minus the mean of the non-missing signals,
  divided by their sample standard deviation: the square root of the sum of squared
  deviations over the count minus one (\<open>ddof = 1\<close>), given at least two signals that are
  not all equal.
\<close>
theorem zscore_sample_standard_deviation:
  assumes "i < length (SIGNAL log_flag (dropna data))"
    and "SIGNAL log_flag (dropna data) ! i = Some s"
    and "xs = notna (SIGNAL log_flag (dropna data))"
    and "2 \<le> length xs"
    and "m = sum_list xs / real (length xs)"
    and "sum_list (map (\<lambda>x. (x - m)\<^sup>2) xs) \<noteq> 0"
  shows "objective (portfolio_problem data beta_range sector_range max_weight log_flag) ! i =
     Some ((s - m) / sqrt (sum_list (map (\<lambda>x. (x - m)\<^sup>2) xs) / (real (length xs) - 1)))"
proof -
  let ?sig = "SIGNAL log_flag (dropna data)"
  have sq: "map (\<lambda>x. (m - x)\<^sup>2) xs = map (\<lambda>x. (x - m)\<^sup>2) xs"
    by (simp add: power2_commute)
  have ne: "xs \<noteq> []" using assms(4) by auto
  have mean: "series_mean ?sig = Some m"
    using assms(3,5) ne by (simp add: series_mean_def Let_def)
  have n1: "real (length xs - 1) = real (length xs) - 1"
    using assms(4) by (simp add: of_nat_diff)
  have "series_std ?sig =
     Some (sqrt (sum_list (map (\<lambda>x. (m - x)\<^sup>2) xs) / real (length xs - 1)))"
    using assms(3,4,5) by (simp add: series_std_def Let_def)
  then have std: "series_std ?sig =
     Some (sqrt (sum_list (map (\<lambda>x. (x - m)\<^sup>2) xs) / (real (length xs) - 1)))"
    by (simp only: sq n1)
  have pos: "0 < real (length xs) - 1"
    using assms(4) by simp
  have nz: "sqrt (sum_list (map (\<lambda>x. (x - m)\<^sup>2) xs) / (real (length xs) - 1)) \<noteq> 0"
    using assms(6) pos by simp
  have "Z_SCORE log_flag (dropna data) ! i = cell_div (cell_sub (?sig ! i) (series_mean ?sig)) (series_std ?sig)"
    using assms(1) by (simp add: Z_SCORE_def Let_def)
  also have "\<dots> = Some ((s - m) / sqrt (sum_list (map (\<lambda>x. (x - m)\<^sup>2) xs) / (real (length xs) - 1)))"
    using nz by (simp only: assms(2) mean std cell_sub_def cell_div_def option.case if_False)
  finally show ?thesis
    by (simp only: objective_problem)
qed

theorem zscore_sample_standard_deviation_witness:
  "(0::nat) < length (SIGNAL False (dropna ex_universe)) \<and>
   SIGNAL False (dropna ex_universe) ! 0 = Some 0 \<and>
   [0, 1, 2] = notna (SIGNAL False (dropna ex_universe)) \<and>
   (2::nat) \<le> length [0, 1, 2 :: real] \<and>
   (1::real) = sum_list [0, 1, 2] / real (length [0, 1, 2 :: real]) \<and>
   sum_list (map (\<lambda>x. (x - 1)\<^sup>2) [0, 1, 2 :: real]) \<noteq> 0 \<and>
   objective (portfolio_problem ex_universe (-1/100, 1/100) (-1/100, 1/100) 1 False) ! 0 = Some (- 1)"
proof -
  have a: "(0::nat) < length (SIGNAL False (dropna ex_universe))"
    and b: "SIGNAL False (dropna ex_universe) ! 0 = Some 0"
    and c: "[0, 1, 2] = notna (SIGNAL False (dropna ex_universe))"
    by (simp_all add: ex_signal notna_def)
  have d: "(2::nat) \<le> length [0, 1, 2 :: real]" by simp
  have e: "(1::real) = sum_list [0, 1, 2] / real (length [0, 1, 2 :: real])" by simp
  have f: "sum_list (map (\<lambda>x. (x - 1)\<^sup>2) [0, 1, 2 :: real]) \<noteq> 0" by simp
  from zscore_sample_standard_deviation [OF a b c d e f, of "(-1/100, 1/100)" "(-1/100, 1/100)" 1]
  have "objective (portfolio_problem ex_universe (-1/100, 1/100) (-1/100, 1/100) 1 False) ! 0 = Some (- 1)"
    by simp
  with a b c d e f show ?thesis by blast
qed

text \<open>
  On the example universe the signals are 0, 1 and 2. Their sample standard deviation is 1
  and the first z-score the function computes is -1; with the population standard
  deviation, the square root of 2/3, it would be another number.
\<close>
theorem zscore_population_counterexample:
  "objective (portfolio_problem ex_universe (-1/100, 1/100) (-1/100, 1/100) 1 False) ! 0 = Some (- 1) \<and>
   population_Z_SCORE False (dropna ex_universe) ! 0 = Some (- 1 / sqrt (2 / 3)) \<and>
   - 1 / sqrt (2 / 3) \<noteq> (- 1 :: real)"
proof -
  have a: "objective (portfolio_problem ex_universe (-1/100, 1/100) (-1/100, 1/100) 1 False) ! 0 = Some (- 1)"
    unfolding ex_problem by simp
  have b: "population_Z_SCORE False (dropna ex_universe) ! 0 = Some (- 1 / sqrt (2 / 3))"
    by (simp add: population_Z_SCORE_def population_std_def ex_signal series_mean_def notna_def
        cell_sub_def cell_div_def Let_def)
  have "sqrt (2 / 3) \<noteq> 1"
    by (simp add: real_sqrt_eq_1_iff)
  moreover have "sqrt (2 / 3) \<noteq> 0" by simp
  ultimately have c: "- 1 / sqrt (2 / 3) \<noteq> (- 1 :: real)"
    by (simp add: field_simps)
  from a b c show ?thesis by blast
qed

section \<open>Properties of the runner\<close>

lemma create_portfolios_loop_frame:
  "create_portfolios_loop solve br sr mw lg kds self = (err, self') \<Longrightarrow>
   schedule self' = schedule self \<and> constituent_data self' = constituent_data self \<and>
   returns self' = returns self \<and> strategy_returns self' = strategy_returns self"
proof (induction kds arbitrary: self)
  case Nil
  then show ?case by simp
next
  case (Cons kd kds)
  then show ?case
    by (auto split: sum.splits)
qed

lemma create_portfolios_loop_keys:
  "create_portfolios_loop solve br sr mw lg kds self = (err, self') \<Longrightarrow>
   fst ` set (optimized_portfolios self) \<subseteq> fst ` set (optimized_portfolios self')"
proof (induction kds arbitrary: self)
  case Nil
  then show ?case by simp
next
  case (Cons kd kds)
  show ?case
  proof (cases "schedule_friday (schedule self) (fst kd)")
    case (Inl e)
    with Cons.prems show ?thesis by simp
  next
    case (Inr d)
    show ?thesis
    proof (cases "optimize_portfolio solve (snd kd) br sr mw lg")
      case (Inl e)
      with Cons.prems Inr show ?thesis by (auto dest: Cons.IH)
    next
      case r: (Inr ps)
      let ?s = "self\<lparr> optimized_portfolios := AList.update d (fst ps) (optimized_portfolios self),
                        solutions := AList.update d (snd ps) (solutions self) \<rparr>"
      from Cons.prems Inr r have "create_portfolios_loop solve br sr mw lg kds ?s = (err, self')"
        by simp
      from Cons.IH [OF this]
      have "fst ` set (AList.update d (fst ps) (optimized_portfolios self))
              \<subseteq> fst ` set (optimized_portfolios self')" by simp
      then show ?thesis by (auto simp add: dom_update)
    qed
  qed
qed

lemma create_portfolios_loop_unchanged:
  assumes "create_portfolios_loop solve br sr mw lg kds self = (err, self')"
    and "\<forall>kd \<in> set kds. schedule_friday (schedule self) (fst kd) = Inr d \<longrightarrow>
           optimization_fails solve br sr mw lg (snd kd)"
  shows "map_of (optimized_portfolios self') d = map_of (optimized_portfolios self) d"
  using assms
proof (induction kds arbitrary: self)
  case Nil
  then show ?case by simp
next
  case (Cons kd kds)
  show ?case
  proof (cases "schedule_friday (schedule self) (fst kd)")
    case (Inl e)
    with Cons.prems show ?thesis by simp
  next
    case (Inr d')
    show ?thesis
    proof (cases "optimize_portfolio solve (snd kd) br sr mw lg")
      case (Inl e)
      with Cons.prems Inr have "create_portfolios_loop solve br sr mw lg kds self = (err, self')"
        by simp
      then show ?thesis using Cons.prems(2) by (intro Cons.IH) simp_all
    next
      case r: (Inr ps)
      let ?s = "self\<lparr> optimized_portfolios := AList.update d' (fst ps) (optimized_portfolios self),
                        solutions := AList.update d' (snd ps) (solutions self) \<rparr>"
      from r have "\<not> optimization_fails solve br sr mw lg (snd kd)"
        by (simp add: optimization_fails_def)
      with Cons.prems(2) Inr have ne: "d' \<noteq> d" by auto
      from Cons.prems Inr r have run: "create_portfolios_loop solve br sr mw lg kds ?s = (err, self')"
        by simp
      have "map_of (optimized_portfolios self') d = map_of (optimized_portfolios ?s) d"
        using run Cons.prems(2) by (intro Cons.IH) simp_all
      also have "\<dots> = map_of (optimized_portfolios self) d"
        using ne by (simp add: update_conv')
      finally show ?thesis .
    qed
  qed
qed

lemma create_portfolios_cases:
  assumes "create_portfolios solve br sr mw lg self = (err, self')"
  shows "self' = self \<or>
         create_portfolios_loop solve br sr mw lg (constituent_data self) self = (err, self')"
  using assms by (auto simp add: create_portfolios_def split: if_splits)

lemma create_portfolios_keys:
  assumes "create_portfolios solve br sr mw lg self = (err, self')"
  shows "fst ` set (optimized_portfolios self) \<subseteq> fst ` set (optimized_portfolios self')"
  using create_portfolios_cases [OF assms] create_portfolios_loop_keys by blast

lemma create_portfolios_unchanged:
  assumes "create_portfolios solve br sr mw lg self = (err, self')"
    and "\<forall>kd \<in> set (constituent_data self). schedule_friday (schedule self) (fst kd) = Inr d \<longrightarrow>
           optimization_fails solve br sr mw lg (snd kd)"
  shows "map_of (optimized_portfolios self') d = map_of (optimized_portfolios self) d"
  using create_portfolios_cases [OF assms(1)] create_portfolios_loop_unchanged [OF _ assms(2)]
  by blast

lemma run_backtest_None:
  assumes "run_backtest self = (None, self')"
  shows "optimized_portfolios self' = optimized_portfolios self"
    and "schedule self' = schedule self" and "returns self' = returns self"
    and "map snd (strategy_returns self') =
         Portfolio_Returns (backtest_strategy (optimized_portfolios self) (schedule self) (returns self))"
proof -
  let ?out = "backtest_strategy (optimized_portfolios self) (schedule self) (returns self)"
  have len: "length (sindex ?out) = length (Portfolio_Returns ?out)"
    by (simp add: sindex_backtest length_Portfolio_Returns index_of_def)
  from assms have s: "self' = self\<lparr> cumulative_strategy_returns := zip (sindex ?out) (Cumulative_Returns ?out),
                       strategy_returns := zip (sindex ?out) (Portfolio_Returns ?out) \<rparr>"
    by (simp add: run_backtest_def Let_def split: if_splits)
  show "optimized_portfolios self' = optimized_portfolios self"
    and "schedule self' = schedule self" and "returns self' = returns self"
    by (simp_all add: s)
  show "map snd (strategy_returns self') = Portfolio_Returns ?out"
    using len by (simp add: s)
qed

lemma grid_search_step_Inr:
  assumes "grid_search_step solve start (b, sl, mw, lg) self = (Inr r, self'')"
  obtains self' where "create_portfolios solve (- b, b) (- sl, sl) mw lg self = (None, self')"
    and "run_backtest self' = (None, self'')"
  using assms
  by (auto simp add: grid_search_step_def split: prod.splits option.splits list.splits)


lemma create_portfolios_frame:
  assumes "create_portfolios solve br sr mw lg self = (err, self')"
  shows "schedule self' = schedule self \<and> constituent_data self' = constituent_data self \<and>
         returns self' = returns self"
  using create_portfolios_cases [OF assms] create_portfolios_loop_frame by blast

text \<open>
  Claim C10. \<open>create_portfolios\<close>, however it ends, keeps every key of the
  optimized-portfolio map, and leaves the entry of a date unchanged when the optimisation
  fails for every universe snapshot scheduled on that date. In an iteration of
  \<open>grid_search\<close> that completes, the entry of such a date is therefore the one the map
  held before the iteration, computed under an earlier parameter combination, and the
  strategy returns of the iteration are those of the backtest run on the map that still
  holds it.
\<close>
theorem create_portfolios_keeps_stale_entries:
  "(create_portfolios solve beta_range sector_range max_weight log_flag self = (err, self') \<longrightarrow>
      fst ` set (optimized_portfolios self) \<subseteq> fst ` set (optimized_portfolios self') \<and>
      (\<forall>d. (\<forall>kd \<in> set (constituent_data self).
               schedule_friday (schedule self) (fst kd) = Inr d \<longrightarrow>
               optimization_fails solve beta_range sector_range max_weight log_flag (snd kd)) \<longrightarrow>
           map_of (optimized_portfolios self') d = map_of (optimized_portfolios self) d)) \<and>
   (grid_search_step solve start (beta_limit, sector_limit, max_weight, log_flag) self = (Inr r, self'') \<longrightarrow>
      (\<forall>d. (\<forall>kd \<in> set (constituent_data self).
               schedule_friday (schedule self) (fst kd) = Inr d \<longrightarrow>
               optimization_fails solve (- beta_limit, beta_limit) (- sector_limit, sector_limit)
                 max_weight log_flag (snd kd)) \<longrightarrow>
           map_of (optimized_portfolios self'') d = map_of (optimized_portfolios self) d) \<and>
      map snd (strategy_returns self'') =
        Portfolio_Returns (backtest_strategy (optimized_portfolios self'') (schedule self) (returns self)))"
proof (intro conjI impI allI)
  assume "create_portfolios solve beta_range sector_range max_weight log_flag self = (err, self')"
  then show "fst ` set (optimized_portfolios self) \<subseteq> fst ` set (optimized_portfolios self')"
    by (rule create_portfolios_keys)
next
  fix d
  assume "create_portfolios solve beta_range sector_range max_weight log_flag self = (err, self')"
    and "\<forall>kd \<in> set (constituent_data self).
               schedule_friday (schedule self) (fst kd) = Inr d \<longrightarrow>
               optimization_fails solve beta_range sector_range max_weight log_flag (snd kd)"
  then show "map_of (optimized_portfolios self') d = map_of (optimized_portfolios self) d"
    by (rule create_portfolios_unchanged)
next
  fix d
  assume step: "grid_search_step solve start (beta_limit, sector_limit, max_weight, log_flag) self = (Inr r, self'')"
    and fails: "\<forall>kd \<in> set (constituent_data self).
               schedule_friday (schedule self) (fst kd) = Inr d \<longrightarrow>
               optimization_fails solve (- beta_limit, beta_limit) (- sector_limit, sector_limit)
                 max_weight log_flag (snd kd)"
  from step obtain s1 where
    c: "create_portfolios solve (- beta_limit, beta_limit) (- sector_limit, sector_limit)
          max_weight log_flag self = (None, s1)"
    and b: "run_backtest s1 = (None, self'')"
    by (rule grid_search_step_Inr)
  have "map_of (optimized_portfolios self'') d = map_of (optimized_portfolios s1) d"
    using run_backtest_None(1) [OF b] by simp
  also have "\<dots> = map_of (optimized_portfolios self) d"
    using c fails by (rule create_portfolios_unchanged)
  finally show "map_of (optimized_portfolios self'') d = map_of (optimized_portfolios self) d" .
next
  assume step: "grid_search_step solve start (beta_limit, sector_limit, max_weight, log_flag) self = (Inr r, self'')"
  from step obtain s1 where
    c: "create_portfolios solve (- beta_limit, beta_limit) (- sector_limit, sector_limit)
          max_weight log_flag self = (None, s1)"
    and b: "run_backtest s1 = (None, self'')"
    by (rule grid_search_step_Inr)
  have "map snd (strategy_returns self'') =
        Portfolio_Returns (backtest_strategy (optimized_portfolios s1) (schedule s1) (returns s1))"
    using b by (rule run_backtest_None(4))
  then show "map snd (strategy_returns self'') =
        Portfolio_Returns (backtest_strategy (optimized_portfolios self'') (schedule self) (returns self))"
    using run_backtest_None(1) [OF b] create_portfolios_frame [OF c] by simp
qed

lemma ex_table_rows:
  "ex_table =
     [\<lparr> pticker = ''A'', Optimized_Weight = 1, pCUST_TRR_RETURN_HOLDING_PER = 0,
        pBETA_RAW_OVERRIDABLE = 1, pGICS_SECTOR_NAME = ''Energy'', pTURNOVER = 2 \<rparr>,
      \<lparr> pticker = ''B'', Optimized_Weight = 0, pCUST_TRR_RETURN_HOLDING_PER = 2,
        pBETA_RAW_OVERRIDABLE = 1/2, pGICS_SECTOR_NAME = ''Banks'', pTURNOVER = 2 \<rparr>,
      \<lparr> pticker = ''C'', Optimized_Weight = -1, pCUST_TRR_RETURN_HOLDING_PER = 4,
        pBETA_RAW_OVERRIDABLE = 1, pGICS_SECTOR_NAME = ''Energy'', pTURNOVER = 2 \<rparr>]"
  by (simp add: ex_table_def ex_universe_def dropna_def isna_def result_row_def)

lemma ex_optimize_feasible:
  "optimize_portfolio ex_solver ex_universe (- (1/100), 1/100) (- (1/100), 1/100) 1 False =
     Inr (ex_table, Some (-2))"
proof -
  have "optimize_portfolio ex_solver ex_universe (-1/100, 1/100) (-1/100, 1/100) 1 False =
     Inr (ex_table, Some (-2))"
    using ex_optimize_table by (simp only: ex_table_def)
  then show ?thesis by simp
qed

lemma ex_optimize_fails:
  "optimization_fails ex_solver (- (1/100), 1/100) (- (1/100), 1/100) (1/2) False ex_universe"
  by (simp add: optimization_fails_def optimize_defs ex_optimize_defs)

lemma ex_backtest_table:
  "backtest_strategy [(2, ex_table)] ex_schedule ex_returns =
     \<lparr> sindex = [1, 2, 3, 4, 5], Portfolio_Returns = [0, 1/10, 0, 0, 0],
       Cumulative_Returns = [1, 11/10, 11/10, 11/10, 11/10] \<rparr>"
  by (simp add: backtest_defs ex_defs ex_table_rows)

lemma ex_first_step:
  "grid_search_step ex_solver 1 (1/100, 1/100, 1, False) ex_runner =
     (Inr \<lparr> gbeta_limit = 1/100, gsector_limit = 1/100, gmax_weight = 1, glog = False,
            final_cumulative_return = 11/10 \<rparr>, ex_runner1)"
  by (simp add: grid_search_step_def create_portfolios_def run_backtest_def ex_runner_def
      ex_runner1_def schedule_friday_def ex_schedule_def ex_e1_def ex_e2_def ex_e3_def
      ex_optimize_feasible ex_backtest_table [unfolded ex_schedule_def ex_e1_def ex_e2_def ex_e3_def]
      cumprod_def)

lemma ex_second_step:
  "grid_search_step ex_solver 1 (1/100, 1/100, 1/2, False) ex_runner1 =
     (Inr \<lparr> gbeta_limit = 1/100, gsector_limit = 1/100, gmax_weight = 1/2, glog = False,
            final_cumulative_return = 11/10 \<rparr>, ex_runner1)"
  using ex_optimize_fails
  by (simp add: grid_search_step_def create_portfolios_def run_backtest_def ex_runner_def
      ex_runner1_def schedule_friday_def ex_schedule_def ex_e1_def ex_e2_def ex_e3_def
      optimization_fails_def split: sum.splits
      add: ex_backtest_table [unfolded ex_schedule_def ex_e1_def ex_e2_def ex_e3_def]
      cumprod_def)


lemma ex_grid_search:
  "grid_search ex_solver [1/100] [1/100] [1, 1/2] [False] 1 ex_runner =
     (Inr [\<lparr> gbeta_limit = 1/100, gsector_limit = 1/100, gmax_weight = 1, glog = False,
              final_cumulative_return = 11/10 \<rparr>,
           \<lparr> gbeta_limit = 1/100, gsector_limit = 1/100, gmax_weight = 1/2, glog = False,
              final_cumulative_return = 11/10 \<rparr>], ex_runner1)"
  by (simp add: grid_search_def ex_first_step ex_second_step)

text \<open>
  On the example the second combination (cap 1/2) is infeasible for the only snapshot:
  the map keeps the table computed under cap 1, and the row reported for cap 1/2 is the
  return of that table.
\<close>

theorem create_portfolios_keeps_stale_entries_witness:
  "grid_search ex_solver [1/100] [1/100] [1, 1/2] [False] 1 ex_runner =
     (Inr [\<lparr> gbeta_limit = 1/100, gsector_limit = 1/100, gmax_weight = 1, glog = False,
              final_cumulative_return = 11/10 \<rparr>,
           \<lparr> gbeta_limit = 1/100, gsector_limit = 1/100, gmax_weight = 1/2, glog = False,
              final_cumulative_return = 11/10 \<rparr>], ex_runner1) \<and>
   grid_search_step ex_solver 1 (1/100, 1/100, 1/2, False) ex_runner1 =
     (Inr \<lparr> gbeta_limit = 1/100, gsector_limit = 1/100, gmax_weight = 1/2, glog = False,
            final_cumulative_return = 11/10 \<rparr>, ex_runner1) \<and>
   constituent_data ex_runner1 = [(1, ex_universe)] \<and>
   schedule_friday (schedule ex_runner1) 1 = Inr 2 \<and>
   optimization_fails ex_solver (- (1/100), 1/100) (- (1/100), 1/100) (1/2) False ex_universe \<and>
   map_of (optimized_portfolios ex_runner1) 2 = Some ex_table \<and>
   map snd (strategy_returns ex_runner1) =
     Portfolio_Returns (backtest_strategy [(2, ex_table)] ex_schedule ex_returns) \<and>
   map snd (strategy_returns ex_runner1) = [0, 1/10, 0, 0, 0]"
proof -
  note g = ex_grid_search
  note st = ex_second_step
  have cd: "constituent_data ex_runner1 = [(1, ex_universe)]"
    by (simp add: ex_runner1_def ex_runner_def)
  have fr: "schedule_friday (schedule ex_runner1) 1 = Inr 2"
    by (simp add: ex_runner1_def ex_runner_def schedule_friday_def ex_schedule_def ex_e1_def
        ex_e2_def ex_e3_def)
  note fl = ex_optimize_fails
  have op: "optimized_portfolios ex_runner1 = [(2, ex_table)]"
    and sc: "schedule ex_runner1 = ex_schedule" and re: "returns ex_runner1 = ex_returns"
    by (simp_all add: ex_runner1_def ex_runner_def)
  have m: "map_of (optimized_portfolios ex_runner1) 2 = Some ex_table"
    by (simp add: op)
  have pre: "\<forall>kd \<in> set (constituent_data ex_runner1).
               schedule_friday (schedule ex_runner1) (fst kd) = Inr 2 \<longrightarrow>
               optimization_fails ex_solver (- (1/100), 1/100) (- (1/100), 1/100) (1/2) False (snd kd)"
    using fl by (simp add: cd)
  from create_portfolios_keeps_stale_entries
    [of ex_solver _ _ "1/2" False ex_runner1 _ _ 1 "1/100" "1/100" _ ex_runner1] st pre
  have keep: "map_of (optimized_portfolios ex_runner1) 2 = map_of (optimized_portfolios ex_runner1) 2"
    and used: "map snd (strategy_returns ex_runner1) =
      Portfolio_Returns (backtest_strategy (optimized_portfolios ex_runner1)
        (schedule ex_runner1) (returns ex_runner1))"
    by blast+
  from used have u: "map snd (strategy_returns ex_runner1) =
     Portfolio_Returns (backtest_strategy [(2, ex_table)] ex_schedule ex_returns)"
    by (simp only: op sc re)
  then have v: "map snd (strategy_returns ex_runner1) = [0, 1/10, 0, 0, 0]"
    by (simp only: ex_backtest_table strategy_frame.simps)
  from g st cd fr fl m u v show ?thesis by blast
qed

end
